theory Spec2Isabelle
  imports Main
begin

section \<open>The launcher \<^verbatim>\<open>fintrack_desktop.py\<close>\<close>

text \<open>
  The source is a single module of straight-line code:
  \<^verbatim>\<open>
  def _repo_root() -> Path:
      return Path(__file__).resolve().parents[1]

  sys.path.insert(0, str(_repo_root()))

  from desktop.fintrack_desktop.app import main

  if __name__ == "__main__":
      raise SystemExit(main())
  \<close>
  Its effects are a mutation of the interpreter's \<^verbatim>\<open>sys.path\<close>, one import, at most one
  call of the imported \<^verbatim>\<open>main\<close>, and the exception it ends with. The application
  package behind the import is not part of these sources: it appears here only as a
  parameter (what the import yields, what the call of \<^verbatim>\<open>main\<close> yields).
\<close>

subsection \<open>Python values and exceptions\<close>

text \<open>
  What \<^verbatim>\<open>main()\<close> may return: \<^verbatim>\<open>None\<close>, an \<^verbatim>\<open>int\<close> (unbounded; \<^verbatim>\<open>bool\<close> is a
  subclass of it), or any other object, kept as the text \<^verbatim>\<open>str()\<close> gives for it.
\<close>

datatype pyval = PyNone | PyInt int | PyObj string

text \<open>
  The exceptions that can leave the module. \<^verbatim>\<open>SystemExit\<close> and \<^verbatim>\<open>KeyboardInterrupt\<close>
  are the two that the interpreter does not end with status 1. \<open>OtherException\<close> stands
  for any exception besides the ones listed, named by its text.
\<close>

datatype exn =
  SystemExit pyval | KeyboardInterrupt | IndexError | ImportError string | OtherException string

datatype outcome = Completed | Raised exn

subsection \<open>Paths\<close>

text \<open>
  An absolute POSIX path, as \<^verbatim>\<open>Path.resolve()\<close> returns it: the components below the
  root \<^verbatim>\<open>/\<close>, outermost first. The empty list is the root itself.
\<close>

type_synonym path = "string list"

text \<open>\<^verbatim>\<open>p.parent\<close>: the last component dropped; the root is its own parent.\<close>

definition parent :: "path \<Rightarrow> path" where
  "parent p = butlast p"

text \<open>
  \<^verbatim>\<open>p.parents[idx]\<close> for an index \<open>idx \<ge> 0\<close>. The sequence \<^verbatim>\<open>parents\<close> has as many
  entries as the path has components; pathlib raises \<^verbatim>\<open>IndexError\<close> beyond that and
  otherwise returns the path cut to \<^verbatim>\<open>tail[:-idx - 1]\<close>.
\<close>

definition parents_at :: "path \<Rightarrow> nat \<Rightarrow> exn + path" where
  "parents_at p idx =
     (if idx \<ge> length p then Inl IndexError
      else Inr (take (length p - idx - 1) p))"

fun sep_join :: "string \<Rightarrow> string list \<Rightarrow> string" where
  "sep_join sep [] = []"
| "sep_join sep [c] = c"
| "sep_join sep (c # cs) = c @ sep @ sep_join sep cs"

text \<open>\<^verbatim>\<open>str(p)\<close> of an absolute POSIX path.\<close>

definition str_path :: "path \<Rightarrow> string" where
  "str_path p = CHR ''/'' # sep_join ''/'' p"

text \<open>
  \<^verbatim>\<open>_repo_root()\<close>. Its argument is the value of \<^verbatim>\<open>Path(__file__).resolve()\<close>, the
  absolute, symlink-resolved location of the launcher file, which the file system decides.
\<close>

definition repo_root :: "path \<Rightarrow> exn + path" where
  "repo_root resolved = parents_at resolved 1"

text \<open>
  The specification's wording of the same value: the parent of the parent of the
  launcher's resolved location.
\<close>

definition spec_root :: "path \<Rightarrow> path" where
  "spec_root resolved = parent (parent resolved)"

subsection \<open>Interpreter state and environment\<close>

text \<open>
  \<^verbatim>\<open>xs.insert(i, x)\<close> for \<open>i \<ge> 0\<close>: \<open>x\<close> goes before position \<open>i\<close>, or to the end when
  the list is shorter.
\<close>

definition list_insert :: "nat \<Rightarrow> 'a \<Rightarrow> 'a list \<Rightarrow> 'a list" where
  "list_insert i x xs = take i xs @ x # drop i xs"

text \<open>
  The state holds \<^verbatim>\<open>sys.path\<close> and a log of what the launcher has done so far, in
  order. The log is there to make "main was not called" and "the import was tried once"
  observable; the launcher never reads it.
\<close>

datatype event = InsertPath string | ImportApp | CallMain

record pstate =
  sys_path :: "string list"
  events :: "event list"

definition main_calls :: "pstate \<Rightarrow> nat" where
  "main_calls s = length (filter (\<lambda>ev. ev = CallMain) (events s))"

definition import_attempts :: "pstate \<Rightarrow> nat" where
  "import_attempts s = length (filter (\<lambda>ev. ev = ImportApp) (events s))"

fun inserted :: "event list \<Rightarrow> string list" where
  "inserted [] = []"
| "inserted (InsertPath x # evs) = x # inserted evs"
| "inserted (ev # evs) = inserted evs"

definition path_inserts :: "pstate \<Rightarrow> string list" where
  "path_inserts s = inserted (events s)"

text \<open>
  The entry point \<^verbatim>\<open>main\<close> takes no argument, so it is represented by what calling it
  gives: a returned value or a raised exception.
\<close>

type_synonym entry_point = "exn + pyval"

text \<open>
  The environment of one run: where the launcher file is, and what the import statement
  \<^verbatim>\<open>from desktop.fintrack_desktop.app import main\<close> does under a given search path
  (it raises, or it binds \<^verbatim>\<open>main\<close>).
\<close>

record env =
  resolved_file :: path
  import_app :: "string list \<Rightarrow> exn + entry_point"

subsection \<open>Running the module\<close>

text \<open>
  The module body, statement by statement. \<open>name\<close> is the module's \<^verbatim>\<open>__name__\<close>:
  \<^verbatim>\<open>"__main__"\<close> when run as a script, the module name when imported. The state that is
  returned is the one in force when the body ends, also when it ends by an exception.
\<close>

definition run_module :: "env \<Rightarrow> string \<Rightarrow> pstate \<Rightarrow> outcome \<times> pstate" where
  "run_module e name s =
     (case repo_root (resolved_file e) of
        Inl x \<Rightarrow> (Raised x, s)
      | Inr root \<Rightarrow>
          let s1 = s\<lparr>sys_path := list_insert 0 (str_path root) (sys_path s),
                     events := events s @ [InsertPath (str_path root)]\<rparr>;
              s2 = s1\<lparr>events := events s1 @ [ImportApp]\<rparr>
          in (case import_app e (sys_path s1) of
                Inl x \<Rightarrow> (Raised x, s2)
              | Inr main \<Rightarrow>
                  if name = ''__main__'' then
                    let s3 = s2\<lparr>events := events s2 @ [CallMain]\<rparr>
                    in (case main of
                          Inl x \<Rightarrow> (Raised x, s3)
                        | Inr v \<Rightarrow> (Raised (SystemExit v), s3))
                  else (Completed, s2)))"

text \<open>
  The launcher run \<open>n\<close> times in one process, one run after the other (a test harness
  that catches what each run raises and goes on).
\<close>

fun relaunch :: "nat \<Rightarrow> env \<Rightarrow> string \<Rightarrow> pstate \<Rightarrow> pstate" where
  "relaunch 0 e name s = s"
| "relaunch (Suc n) e name s = snd (run_module e name (relaunch n e name s))"

subsection \<open>From the outcome to the process exit status\<close>

text \<open>
  What the interpreter does with the way the script ended (CPython on a POSIX system
  with a 64-bit C \<^verbatim>\<open>long\<close>). For \<^verbatim>\<open>SystemExit\<close> it looks at the code: \<^verbatim>\<open>None\<close> is 0, an
  integer is converted to a C \<^verbatim>\<open>long\<close> (the conversion fails with \<open>-1\<close> when the integer
  does not fit), any other object is printed and counts as 1. For an uncaught
  \<^verbatim>\<open>KeyboardInterrupt\<close> the interpreter does not call \<^verbatim>\<open>exit\<close>: it restores the default
  handler and kills its own process with the signal \<^verbatim>\<open>SIGINT\<close> (number 2). Any other
  uncaught exception is printed with its traceback and counts as 1.
\<close>

definition fits_c_long :: "int \<Rightarrow> bool" where
  "fits_c_long n = (- (2 ^ 63) \<le> n \<and> n < 2 ^ 63)"

fun exit_code :: "pyval \<Rightarrow> int" where
  "exit_code PyNone = 0"
| "exit_code (PyInt n) = (if fits_c_long n then n else - 1)"
| "exit_code (PyObj t) = 1"

text \<open>How the process ends: by \<^verbatim>\<open>exit\<close> with a code, or killed by a signal.\<close>

datatype ending = Exited int | Killed nat

fun process_end :: "outcome \<Rightarrow> ending" where
  "process_end Completed = Exited 0"
| "process_end (Raised (SystemExit v)) = Exited (exit_code v)"
| "process_end (Raised KeyboardInterrupt) = Killed 2"
| "process_end (Raised x) = Exited 1"

text \<open>
  The status of the ended process as a POSIX shell reports it: the low 8 bits of what
  \<^verbatim>\<open>exit\<close> received, or 128 plus the number of the signal that killed the process.
\<close>

fun wait_status :: "ending \<Rightarrow> int" where
  "wait_status (Exited code) = code mod 256"
| "wait_status (Killed signal) = 128 + int signal"

definition exit_status :: "outcome \<Rightarrow> int" where
  "exit_status out = wait_status (process_end out)"

fun is_system_exit :: "exn \<Rightarrow> bool" where
  "is_system_exit (SystemExit v) = True"
| "is_system_exit x = False"

subsection \<open>Example environments\<close>

text \<open>
  A checkout at \<^verbatim>\<open>/repo\<close> with the launcher in its \<^verbatim>\<open>frontend/\<close> directory. The
  application package is found exactly when \<^verbatim>\<open>/repo\<close> is on the search path.
\<close>

definition demo_file :: path where
  "demo_file = [''repo'', ''frontend'', ''fintrack_desktop.py'']"

definition demo_env :: "entry_point \<Rightarrow> env" where
  "demo_env main =
     \<lparr>resolved_file = demo_file,
      import_app = (\<lambda>sp. if ''/repo'' \<in> set sp then Inr main
                          else Inl (ImportError ''No module named desktop''))\<rparr>"

text \<open>The same checkout with the application package missing.\<close>

definition broken_env :: env where
  "broken_env =
     \<lparr>resolved_file = demo_file,
      import_app = (\<lambda>sp. Inl (ImportError ''No module named desktop''))\<rparr>"

definition demo_state :: pstate where
  "demo_state = \<lparr>sys_path = [''/usr/lib/python3''], events = []\<rparr>"

section \<open>Properties\<close>

subsection \<open>Helper facts\<close>

lemma list_insert_front: "list_insert 0 x xs = x # xs"
  by (simp add: list_insert_def)

lemma repo_root_cases:
  "repo_root p = (if 2 \<le> length p then Inr (take (length p - 2) p) else Inl IndexError)"
  by (auto simp: repo_root_def parents_at_def numeral_2_eq_2)

lemma parent_parent_take: "parent (parent p) = take (length p - 2) p"
  by (simp add: parent_def butlast_conv_take numeral_2_eq_2)

lemma demo_root: "repo_root demo_file = Inr [''repo'']"
  by (simp add: repo_root_cases demo_file_def)

lemma demo_root_str: "str_path [''repo''] = ''/repo''"
  by (simp add: str_path_def)

text \<open>
  A launcher in a directory of the repository, as its docstring places it
  (\<^verbatim>\<open>frontend/fintrack_desktop.py\<close>): the root is what lies above that directory.
\<close>

lemma repo_root_in_directory: "repo_root (pre @ [dir, file]) = Inr pre"
  by (simp add: repo_root_cases)

text \<open>
  A launcher file lying directly in \<^verbatim>\<open>/\<close>, outside its documented place, has no
  second ancestor: \<^verbatim>\<open>parents[1]\<close> raises.
\<close>

lemma repo_root_top_level: "repo_root [file] = Inl IndexError"
  by (simp add: repo_root_cases)


lemma inserted_append: "inserted (xs @ ys) = inserted xs @ inserted ys"
  by (induction xs rule: inserted.induct) simp_all

lemma run_module_path:
  assumes "repo_root (resolved_file e) = Inr r"
  shows "sys_path (snd (run_module e name s)) = str_path r # sys_path s"
  using assms
  by (simp add: run_module_def Let_def list_insert_front split: sum.splits)

lemma run_module_inserts:
  assumes "repo_root (resolved_file e) = Inr r"
  shows "path_inserts (snd (run_module e name s)) = path_inserts s @ [str_path r]"
  using assms
  by (simp add: run_module_def Let_def path_inserts_def inserted_append split: sum.splits)

lemma demo_env_simps:
  "resolved_file (demo_env m) = demo_file"
  "import_app (demo_env m) (''/repo'' # sp) = Inr m"
  by (simp_all add: demo_env_def)

lemma demo_env_root: "repo_root (resolved_file (demo_env m)) = Inr [''repo'']"
  by (simp add: demo_env_simps demo_root)

lemma demo_env_import:
  "import_app (demo_env m) (str_path [''repo''] # sys_path demo_state) = Inr m"
  by (simp add: demo_root_str demo_env_simps)

subsection \<open>The repository root\<close>

text \<open>
  C1. The root computed by \<^verbatim>\<open>_repo_root()\<close> is the parent of the parent of the
  launcher's resolved location: whenever a root is computed it is that directory, and one
  is computed for every location with at least two components below the file system
  root, as the launcher's place in the \<^verbatim>\<open>frontend/\<close> directory of the repository gives.
\<close>

theorem repo_root_grandparent:
  "(repo_root p = Inr r \<longrightarrow> r = spec_root p)
   \<and> (2 \<le> length p \<longrightarrow> repo_root p = Inr (spec_root p))"
  by (simp add: repo_root_cases spec_root_def parent_parent_take)

theorem repo_root_grandparent_witness:
  "repo_root demo_file = Inr [''repo''] \<and> 2 \<le> length demo_file
   \<and> [''repo''] = spec_root demo_file
   \<and> repo_root demo_file = Inr (spec_root demo_file)"
proof -
  have len: "2 \<le> length demo_file"
    by (simp add: demo_file_def)
  show ?thesis
    using repo_root_grandparent [of demo_file "[''repo'']"] demo_root len
    by auto
qed

subsection \<open>The module search path\<close>

text \<open>
  C2. After a run of the launcher, whatever the import and the entry point did, the
  computed root stands at index 0 of \<^verbatim>\<open>sys.path\<close>, and every entry that was there
  before comes after it (one position later than it was).
\<close>

theorem root_at_front:
  assumes "repo_root (resolved_file e) = Inr r"
  shows "sys_path (snd (run_module e name s)) \<noteq> []
         \<and> sys_path (snd (run_module e name s)) ! 0 = str_path r
         \<and> (\<forall>i < length (sys_path s).
               sys_path (snd (run_module e name s)) ! Suc i = sys_path s ! i)"
  by (simp add: run_module_path [OF assms])

theorem root_at_front_witness:
  "repo_root (resolved_file (demo_env (Inr (PyInt 0)))) = Inr [''repo'']
   \<and> sys_path (snd (run_module (demo_env (Inr (PyInt 0))) ''__main__'' demo_state)) ! 0 = ''/repo''
   \<and> sys_path (snd (run_module (demo_env (Inr (PyInt 0))) ''__main__'' demo_state)) ! Suc 0
       = ''/usr/lib/python3''"
  using root_at_front [where e = "demo_env (Inr (PyInt 0))" and r = "[''repo'']"
      and name = "''__main__''" and s = demo_state]
  by (simp add: demo_env_root demo_root_str demo_state_def)

text \<open>
  C8. The one change a run makes to \<^verbatim>\<open>sys.path\<close> is to put the computed root in front:
  the path afterwards is the root followed by the old path, entry for entry, and the log
  shows exactly one insertion. This is the state the run ends with on every way it can
  end (import failure, exception from the entry point, \<^verbatim>\<open>SystemExit\<close>, or plain
  completion when imported), so the change outlives the run.
\<close>

theorem only_prepends_root:
  assumes "repo_root (resolved_file e) = Inr r"
  shows "sys_path (snd (run_module e name s)) = str_path r # sys_path s
         \<and> path_inserts (snd (run_module e name s)) = path_inserts s @ [str_path r]"
  by (simp add: run_module_path [OF assms] run_module_inserts [OF assms])

theorem only_prepends_root_witness:
  "repo_root (resolved_file broken_env) = Inr [''repo'']
   \<and> fst (run_module broken_env ''__main__'' demo_state)
       = Raised (ImportError ''No module named desktop'')
   \<and> sys_path (snd (run_module broken_env ''__main__'' demo_state))
       = [''/repo'', ''/usr/lib/python3'']
   \<and> path_inserts (snd (run_module broken_env ''__main__'' demo_state)) = [''/repo'']"
proof -
  have root: "repo_root (resolved_file broken_env) = Inr [''repo'']"
    by (simp add: broken_env_def demo_root)
  have out: "fst (run_module broken_env ''__main__'' demo_state)
               = Raised (ImportError ''No module named desktop'')"
    by (simp add: run_module_def broken_env_def demo_root Let_def)
  show ?thesis
    using only_prepends_root [OF root, of "''__main__''" demo_state] root out
    by (simp add: demo_root_str demo_state_def path_inserts_def)
qed

text \<open>
  C9. Running the launcher \<open>n\<close> times in a row computes the same root every time and
  puts it in front every time, without looking for an earlier copy: the path ends as
  \<open>n\<close> copies of the root followed by the original path, and after each run (\<open>n > 0\<close>)
  the root is the first entry.
\<close>

theorem relaunch_prepends:
  assumes "repo_root (resolved_file e) = Inr r"
  shows "sys_path (relaunch n e name s) = replicate n (str_path r) @ sys_path s
         \<and> path_inserts (relaunch n e name s) = path_inserts s @ replicate n (str_path r)
         \<and> (0 < n \<longrightarrow> hd (sys_path (relaunch n e name s)) = str_path r)"
proof -
  have p: "sys_path (relaunch n e name s) = replicate n (str_path r) @ sys_path s"
    by (induction n) (simp_all add: run_module_path [OF assms])
  have q: "path_inserts (relaunch n e name s) = path_inserts s @ replicate n (str_path r)"
    by (induction n) (simp_all add: run_module_inserts [OF assms] replicate_append_same)
  from p have "0 < n \<longrightarrow> hd (sys_path (relaunch n e name s)) = str_path r"
    by (cases n) simp_all
  with p q show ?thesis by simp
qed

theorem relaunch_prepends_witness:
  "repo_root (resolved_file (demo_env (Inr PyNone))) = Inr [''repo'']
   \<and> sys_path (relaunch 3 (demo_env (Inr PyNone)) ''__main__'' demo_state)
       = [''/repo'', ''/repo'', ''/repo'', ''/usr/lib/python3'']
   \<and> hd (sys_path (relaunch 3 (demo_env (Inr PyNone)) ''__main__'' demo_state)) = ''/repo''"
  using relaunch_prepends [where e = "demo_env (Inr PyNone)" and r = "[''repo'']" and n = 3
      and name = "''__main__''" and s = demo_state]
  by (simp add: demo_env_root demo_root_str demo_state_def numeral_3_eq_3)


subsection \<open>The exit status\<close>

lemma run_script_returns:
  assumes "repo_root (resolved_file e) = Inr r"
    and "import_app e (str_path r # sys_path s) = Inr (Inr v)"
  shows "fst (run_module e ''__main__'' s) = Raised (SystemExit v)"
  using assms by (simp add: run_module_def Let_def list_insert_front)

lemma run_script_raises:
  assumes "repo_root (resolved_file e) = Inr r"
    and "import_app e (str_path r # sys_path s) = Inr (Inl x)"
  shows "fst (run_module e ''__main__'' s) = Raised x"
  using assms by (simp add: run_module_def Let_def list_insert_front)

lemma exit_status_int: "exit_status (Raised (SystemExit (PyInt n))) =
    (if fits_c_long n then n mod 256 else 255)"
  by (simp add: exit_status_def)

lemma fits_c_long_byte: "0 \<le> n \<Longrightarrow> n \<le> 255 \<Longrightarrow> fits_c_long n"
  by (simp add: fits_c_long_def)

text \<open>
  C3 (as amended). Run as a script with a root computed and the entry point imported:
  if \<^verbatim>\<open>main()\<close> returns an integer \<open>N\<close> with \<open>0 \<le> N \<le> 255\<close>, the launcher ends by
  \<^verbatim>\<open>SystemExit(N)\<close> and the process exit status is \<open>N\<close>.
\<close>

theorem exit_status_is_returned_int:
  assumes "repo_root (resolved_file e) = Inr r"
    and "import_app e (str_path r # sys_path s) = Inr (Inr (PyInt N))"
    and "0 \<le> N" and "N \<le> 255"
  shows "fst (run_module e ''__main__'' s) = Raised (SystemExit (PyInt N))
         \<and> exit_status (fst (run_module e ''__main__'' s)) = N"
  using assms(3,4)
  by (simp add: run_script_returns [OF assms(1,2)] exit_status_int fits_c_long_byte)

theorem exit_status_is_returned_int_witness:
  "repo_root (resolved_file (demo_env (Inr (PyInt 2)))) = Inr [''repo'']
   \<and> import_app (demo_env (Inr (PyInt 2))) (str_path [''repo''] # sys_path demo_state)
       = Inr (Inr (PyInt 2))
   \<and> exit_status (fst (run_module (demo_env (Inr (PyInt 2))) ''__main__'' demo_state)) = 2"
  using exit_status_is_returned_int [where e = "demo_env (Inr (PyInt 2))" and r = "[''repo'']"
      and s = demo_state and N = 2]
  by (auto simp: demo_env_root demo_env_import)

text \<open>
  C3 as stated (every integer) fails at \<open>N = 256\<close>: the launcher ends by
  \<^verbatim>\<open>SystemExit(256)\<close>, and the exit status, which holds 8 bits, is 0.
\<close>

theorem exit_status_is_returned_int_counterexample:
  "import_app (demo_env (Inr (PyInt 256))) (str_path [''repo''] # sys_path demo_state)
       = Inr (Inr (PyInt 256))
   \<and> fst (run_module (demo_env (Inr (PyInt 256))) ''__main__'' demo_state)
       = Raised (SystemExit (PyInt 256))
   \<and> exit_status (fst (run_module (demo_env (Inr (PyInt 256))) ''__main__'' demo_state)) = 0
   \<and> exit_status (fst (run_module (demo_env (Inr (PyInt 256))) ''__main__'' demo_state))
       \<noteq> 256"
  by (simp add: run_script_returns [OF demo_env_root demo_env_import] demo_env_import
      exit_status_int fits_c_long_def)

text \<open>
  C4. Run as a script with a root computed and the entry point imported: if \<^verbatim>\<open>main()\<close>
  returns \<^verbatim>\<open>None\<close>, the launcher ends by \<^verbatim>\<open>SystemExit(None)\<close> and the process exit
  status is 0.
\<close>

theorem exit_status_none:
  assumes "repo_root (resolved_file e) = Inr r"
    and "import_app e (str_path r # sys_path s) = Inr (Inr PyNone)"
  shows "fst (run_module e ''__main__'' s) = Raised (SystemExit PyNone)
         \<and> exit_status (fst (run_module e ''__main__'' s)) = 0"
  by (simp add: run_script_returns [OF assms] exit_status_def)

theorem exit_status_none_witness:
  "repo_root (resolved_file (demo_env (Inr PyNone))) = Inr [''repo'']
   \<and> import_app (demo_env (Inr PyNone)) (str_path [''repo''] # sys_path demo_state)
       = Inr (Inr PyNone)
   \<and> exit_status (fst (run_module (demo_env (Inr PyNone)) ''__main__'' demo_state)) = 0"
  using exit_status_none [where e = "demo_env (Inr PyNone)" and r = "[''repo'']"
      and s = demo_state]
  by (auto simp: demo_env_root demo_env_import)

text \<open>
  C5 (as amended). Run as a script with a root computed and the entry point imported:
  if \<^verbatim>\<open>main()\<close> returns a value that is neither an integer nor \<^verbatim>\<open>None\<close>, the launcher
  ends by \<^verbatim>\<open>SystemExit\<close> carrying that value and the process exit status is 1.
\<close>

theorem exit_status_other_value:
  assumes "repo_root (resolved_file e) = Inr r"
    and "import_app e (str_path r # sys_path s) = Inr (Inr (PyObj t))"
  shows "fst (run_module e ''__main__'' s) = Raised (SystemExit (PyObj t))
         \<and> exit_status (fst (run_module e ''__main__'' s)) = 1"
  by (simp add: run_script_returns [OF assms] exit_status_def)

theorem exit_status_other_value_witness:
  "repo_root (resolved_file (demo_env (Inr (PyObj ''done'')))) = Inr [''repo'']
   \<and> import_app (demo_env (Inr (PyObj ''done''))) (str_path [''repo''] # sys_path demo_state)
       = Inr (Inr (PyObj ''done''))
   \<and> exit_status (fst (run_module (demo_env (Inr (PyObj ''done''))) ''__main__'' demo_state))
       = 1"
  using exit_status_other_value [where e = "demo_env (Inr (PyObj ''done''))"
      and r = "[''repo'']" and s = demo_state and t = "''done''"]
  by (auto simp: demo_env_root demo_env_import)

text \<open>
  C5 as stated (status 0) fails when \<^verbatim>\<open>main()\<close> returns the string \<^verbatim>\<open>"done"\<close>.
\<close>

theorem exit_status_other_value_counterexample:
  "fst (run_module (demo_env (Inr (PyObj ''done''))) ''__main__'' demo_state)
       = Raised (SystemExit (PyObj ''done''))
   \<and> exit_status (fst (run_module (demo_env (Inr (PyObj ''done''))) ''__main__'' demo_state))
       \<noteq> 0"
  by (simp add: run_script_returns [OF demo_env_root demo_env_import] exit_status_def)


subsection \<open>Failures\<close>

lemma exit_status_not_system_exit:
  "\<not> is_system_exit x \<Longrightarrow>
     exit_status (Raised x) = (if x = KeyboardInterrupt then 130 else 1)"
  by (cases x) (simp_all add: exit_status_def)

text \<open>
  C6 (as amended). Run as a script with a root computed and the entry point imported:
  if \<^verbatim>\<open>main()\<close> raises an exception, the launcher ends with that very exception, having
  done nothing after the call. The process status is then non-zero for every exception
  other than \<^verbatim>\<open>SystemExit\<close> (130 for \<^verbatim>\<open>KeyboardInterrupt\<close>, which ends the process by
  \<^verbatim>\<open>SIGINT\<close>, and 1 for the rest); a \<^verbatim>\<open>SystemExit\<close> raised by \<^verbatim>\<open>main()\<close> itself gives
  the status of its own code.
\<close>

theorem main_exception_propagates:
  assumes "repo_root (resolved_file e) = Inr r"
    and "import_app e (str_path r # sys_path s) = Inr (Inl x)"
  shows "run_module e ''__main__'' s =
           (Raised x, s\<lparr>sys_path := str_path r # sys_path s,
                         events := events s @ [InsertPath (str_path r), ImportApp, CallMain]\<rparr>)
         \<and> (\<not> is_system_exit x \<longrightarrow>
               exit_status (fst (run_module e ''__main__'' s)) \<noteq> 0
               \<and> exit_status (fst (run_module e ''__main__'' s))
                   = (if x = KeyboardInterrupt then 130 else 1))
         \<and> (\<forall>v. x = SystemExit v \<longrightarrow>
               exit_status (fst (run_module e ''__main__'' s)) = exit_code v mod 256)"
proof -
  have run: "run_module e ''__main__'' s =
           (Raised x, s\<lparr>sys_path := str_path r # sys_path s,
                         events := events s @ [InsertPath (str_path r), ImportApp, CallMain]\<rparr>)"
    using assms by (simp add: run_module_def Let_def list_insert_front)
  have "\<not> is_system_exit x \<longrightarrow>
          exit_status (Raised x) \<noteq> 0
          \<and> exit_status (Raised x) = (if x = KeyboardInterrupt then 130 else 1)"
    by (simp add: exit_status_not_system_exit)
  moreover have "\<forall>v. x = SystemExit v \<longrightarrow> exit_status (Raised x) = exit_code v mod 256"
    by (simp add: exit_status_def)
  ultimately show ?thesis
    by (simp add: run)
qed

theorem main_exception_propagates_witness:
  "repo_root (resolved_file (demo_env (Inl (OtherException ''RuntimeError'')))) = Inr [''repo'']
   \<and> import_app (demo_env (Inl (OtherException ''RuntimeError'')))
         (str_path [''repo''] # sys_path demo_state) = Inr (Inl (OtherException ''RuntimeError''))
   \<and> \<not> is_system_exit (OtherException ''RuntimeError'')
   \<and> fst (run_module (demo_env (Inl (OtherException ''RuntimeError''))) ''__main__'' demo_state)
       = Raised (OtherException ''RuntimeError'')
   \<and> exit_status
        (fst (run_module (demo_env (Inl (OtherException ''RuntimeError''))) ''__main__''
           demo_state)) = 1"
  using main_exception_propagates [where e = "demo_env (Inl (OtherException ''RuntimeError''))"
      and r = "[''repo'']" and s = demo_state and x = "OtherException ''RuntimeError''"]
  by (auto simp: demo_env_root demo_env_import)

text \<open>
  C6 as stated (a non-zero status for any exception) fails when \<^verbatim>\<open>main()\<close> raises
  \<^verbatim>\<open>SystemExit(0)\<close>, as a call of \<^verbatim>\<open>sys.exit(0)\<close> inside it does: the exception
  propagates and the process exit status is 0.
\<close>

theorem main_exception_propagates_counterexample:
  "import_app (demo_env (Inl (SystemExit (PyInt 0))))
         (str_path [''repo''] # sys_path demo_state) = Inr (Inl (SystemExit (PyInt 0)))
   \<and> fst (run_module (demo_env (Inl (SystemExit (PyInt 0)))) ''__main__'' demo_state)
       = Raised (SystemExit (PyInt 0))
   \<and> exit_status
        (fst (run_module (demo_env (Inl (SystemExit (PyInt 0)))) ''__main__'' demo_state)) = 0"
  by (simp add: run_script_raises [OF demo_env_root demo_env_import] demo_env_import
      exit_status_def fits_c_long_def)

text \<open>
  C7. With a root computed: if the import of the entry point fails with an import error,
  the run ends there with that error, whether the launcher is run as a script or
  imported. The import was tried once, \<^verbatim>\<open>main\<close> was not called, nothing else was done,
  and the process exit status of the uncaught error is 1.
\<close>

theorem import_failure_aborts:
  assumes "repo_root (resolved_file e) = Inr r"
    and "import_app e (str_path r # sys_path s) = Inl (ImportError m)"
  shows "run_module e name s =
           (Raised (ImportError m),
            s\<lparr>sys_path := str_path r # sys_path s,
              events := events s @ [InsertPath (str_path r), ImportApp]\<rparr>)
         \<and> exit_status (fst (run_module e name s)) = 1
         \<and> main_calls (snd (run_module e name s)) = main_calls s
         \<and> import_attempts (snd (run_module e name s)) = Suc (import_attempts s)"
proof -
  have run: "run_module e name s =
           (Raised (ImportError m),
            s\<lparr>sys_path := str_path r # sys_path s,
              events := events s @ [InsertPath (str_path r), ImportApp]\<rparr>)"
    using assms by (simp add: run_module_def Let_def list_insert_front)
  show ?thesis
    by (simp add: run exit_status_def main_calls_def import_attempts_def)
qed

theorem import_failure_aborts_witness:
  "repo_root (resolved_file broken_env) = Inr [''repo'']
   \<and> import_app broken_env (str_path [''repo''] # sys_path demo_state)
       = Inl (ImportError ''No module named desktop'')
   \<and> fst (run_module broken_env ''__main__'' demo_state)
       = Raised (ImportError ''No module named desktop'')
   \<and> exit_status (fst (run_module broken_env ''__main__'' demo_state)) = 1
   \<and> main_calls (snd (run_module broken_env ''__main__'' demo_state)) = 0"
proof -
  have root: "repo_root (resolved_file broken_env) = Inr [''repo'']"
    by (simp add: broken_env_def demo_root)
  have imp: "import_app broken_env (str_path [''repo''] # sys_path demo_state)
               = Inl (ImportError ''No module named desktop'')"
    by (simp add: broken_env_def)
  have "main_calls demo_state = 0"
    by (simp add: main_calls_def demo_state_def)
  then show ?thesis
    using import_failure_aborts [OF root imp, of "''__main__''"] root imp
    by auto
qed

subsection \<open>Import without execution\<close>

text \<open>
  C10. When the launcher is imported (its \<^verbatim>\<open>__name__\<close> is not \<^verbatim>\<open>"__main__"\<close>), with a
  root computed and the entry point importable, the module body completes without an
  exception, so without \<^verbatim>\<open>SystemExit\<close>. It has put the root in front of \<^verbatim>\<open>sys.path\<close>
  and imported the entry point once, and it has not called \<^verbatim>\<open>main\<close>.
\<close>

theorem import_only_side_effects:
  assumes "name \<noteq> ''__main__''"
    and "repo_root (resolved_file e) = Inr r"
    and "import_app e (str_path r # sys_path s) = Inr main"
  shows "run_module e name s =
           (Completed,
            s\<lparr>sys_path := str_path r # sys_path s,
              events := events s @ [InsertPath (str_path r), ImportApp]\<rparr>)
         \<and> main_calls (snd (run_module e name s)) = main_calls s
         \<and> import_attempts (snd (run_module e name s)) = Suc (import_attempts s)"
proof -
  have run: "run_module e name s =
           (Completed,
            s\<lparr>sys_path := str_path r # sys_path s,
              events := events s @ [InsertPath (str_path r), ImportApp]\<rparr>)"
    using assms by (simp add: run_module_def Let_def list_insert_front)
  show ?thesis
    by (simp add: run main_calls_def import_attempts_def)
qed

theorem import_only_side_effects_witness:
  "''fintrack_desktop'' \<noteq> ''__main__''
   \<and> repo_root (resolved_file (demo_env (Inr (PyInt 0)))) = Inr [''repo'']
   \<and> import_app (demo_env (Inr (PyInt 0))) (str_path [''repo''] # sys_path demo_state)
       = Inr (Inr (PyInt 0))
   \<and> run_module (demo_env (Inr (PyInt 0))) ''fintrack_desktop'' demo_state
       = (Completed,
          \<lparr>sys_path = [''/repo'', ''/usr/lib/python3''],
           events = [InsertPath ''/repo'', ImportApp]\<rparr>)
   \<and> main_calls (snd (run_module (demo_env (Inr (PyInt 0))) ''fintrack_desktop'' demo_state))
       = 0"
proof -
  have name: "''fintrack_desktop'' \<noteq> ''__main__''"
    by simp
  have "main_calls demo_state = 0"
    by (simp add: main_calls_def demo_state_def)
  then show ?thesis
    using import_only_side_effects [OF name demo_env_root demo_env_import, of "Inr (PyInt 0)"]
      demo_env_import [of "Inr (PyInt 0)"]
    by (auto simp: demo_env_root demo_root_str demo_state_def)
qed


text \<open>
  The same run with \<^verbatim>\<open>main()\<close> interrupted from the keyboard: the exception leaves the
  launcher as it is and the process is killed by \<^verbatim>\<open>SIGINT\<close>.
\<close>

lemma keyboard_interrupt_run:
  "fst (run_module (demo_env (Inl KeyboardInterrupt)) ''__main__'' demo_state)
     = Raised KeyboardInterrupt
   \<and> process_end (fst (run_module (demo_env (Inl KeyboardInterrupt)) ''__main__'' demo_state))
     = Killed 2
   \<and> exit_status (fst (run_module (demo_env (Inl KeyboardInterrupt)) ''__main__'' demo_state))
     = 130"
  by (simp add: run_script_raises [OF demo_env_root demo_env_import] exit_status_def)

end
